theory Spec2Isabelle
  imports Main "HOL-Library.Word"
begin

unbundle bit_operations_syntax

section \<open>Value marshalling\<close>

text \<open>
  The VM's integer type \<open>u256\<close> is an unsigned 256-bit number, an account identifier
  is 160 bits wide.  Inside the layout a word is stored as \<open>i256\<close>: four 64-bit limbs
  \<open>limb_a\<close> (least significant) to \<open>limb_d\<close> (most significant).
\<close>

type_synonym u256 = "256 word"
type_synonym uint64_t = "64 word"
type_synonym Address = "160 word"
type_synonym byte = "8 word"

text \<open>A raw pointer is the address it holds.\<close>

type_synonym ptr = nat

record i256 =
  limb_a :: uint64_t
  limb_b :: uint64_t
  limb_c :: uint64_t
  limb_d :: uint64_t

definition mask64 :: u256 where
  "mask64 = 0xFFFFFFFFFFFFFFFF"

text \<open>
  Modelled from the spec: \<open>eth2llvm\<close> (the spec's toLayoutWord) is called by
  \<open>Runtime::set\<close> but defined outside Runtime.cpp.  The spec asks for a bit-exact
  conversion of the 256-bit integer into the in-memory word; the model cuts the integer
  into its four 64-bit limbs, lowest first, masking and shifting right by 64 each time.
\<close>

definition eth2llvm :: "u256 \<Rightarrow> i256" where
  "eth2llvm u =
     (let u0 = u;
          u1 = drop_bit 64 u0;
          u2 = drop_bit 64 u1;
          u3 = drop_bit 64 u2
      in \<lparr>limb_a = ucast (u0 AND mask64), limb_b = ucast (u1 AND mask64),
          limb_c = ucast (u2 AND mask64), limb_d = ucast (u3 AND mask64)\<rparr>)"

text \<open>
  Modelled from the spec: \<open>llvm2eth\<close> (the spec's fromLayoutWord) is called by
  \<open>Runtime::getGas\<close> and \<open>Runtime::getReturnData\<close> but defined outside
  Runtime.cpp.  The model starts from zero and shifts the limbs in, highest first.
\<close>

definition llvm2eth :: "i256 \<Rightarrow> u256" where
  "llvm2eth i =
     (let u0 = (0::u256) OR ucast (limb_d i);
          u1 = push_bit 64 u0 OR ucast (limb_c i);
          u2 = push_bit 64 u1 OR ucast (limb_b i);
          u3 = push_bit 64 u2 OR ucast (limb_a i)
      in u3)"

text \<open>
  Modelled from the spec: \<open>fromAddress\<close> is used by the constructor of \<open>Runtime\<close>
  but defined outside Runtime.cpp.  The spec: it zero-extends a 160-bit account
  identifier into a 256-bit word.
\<close>

definition fromAddress :: "Address \<Rightarrow> u256" where
  "fromAddress x = ucast x"

section \<open>Runtime layout (host side)\<close>

text \<open>
  The enumeration \<open>RuntimeData::Index\<close>.  Runtime.cpp names fourteen context fields
  (in \<open>getName\<close> and in the constructor) and the two return-data fields.
\<close>

datatype Index =
    Gas | Address | Caller | Origin | CallValue | CallDataSize | GasPrice | PrevHash
  | CoinBase | TimeStamp | Number | Difficulty | GasLimit | CodeSize
  | ReturnDataOffset | ReturnDataSize

text \<open>
  Modelled from the spec: the numeric value of each enumerator and the enumerator
  \<open>_size\<close> (here \<open>Index_size\<close>) are declared in Runtime.h, which is not part of
  the sources.  The spec lists the word slots in this order: the fourteen named
  context fields, then return-data offset and return-data size.
\<close>

fun index_of :: "Index \<Rightarrow> nat" where
  "index_of Gas = 0"
| "index_of Address = 1"
| "index_of Caller = 2"
| "index_of Origin = 3"
| "index_of CallValue = 4"
| "index_of CallDataSize = 5"
| "index_of GasPrice = 6"
| "index_of PrevHash = 7"
| "index_of CoinBase = 8"
| "index_of TimeStamp = 9"
| "index_of Number = 10"
| "index_of Difficulty = 11"
| "index_of GasLimit = 12"
| "index_of CodeSize = 13"
| "index_of ReturnDataOffset = 14"
| "index_of ReturnDataSize = 15"

definition Index_size :: nat where
  "Index_size = 16"

text \<open>
  The host-side struct \<open>RuntimeData\<close>: the word array \<open>elems\<close>, indexed by the
  enumeration, and the three pointers the constructor assigns.
\<close>

record RuntimeData =
  elems :: "Index \<Rightarrow> i256"
  callData :: ptr
  code :: ptr
  jmpBuf :: ptr

text \<open>
  A byte vector is the address \<open>data()\<close> returns and its contents; a
  \<open>bytesConstRef\<close> is a non-owning view: a pointer and a count.
\<close>

record bytes_vec =
  vec_data :: ptr
  vec_elems :: "byte list"

record bytesConstRef =
  ref_data :: ptr
  ref_count :: nat

text \<open>The part of the external environment the constructor reads.\<close>

record BlockInfo =
  hash :: u256
  coinbaseAddress :: Address
  timestamp :: u256
  number :: u256
  difficulty :: u256
  gasLimit :: u256

record ExtVMFace =
  myAddress :: Address
  caller :: Address
  origin :: Address
  ext_value :: u256
  ext_data :: bytesConstRef
  ext_code :: bytes_vec
  gasPrice :: u256
  previousBlock :: BlockInfo
  currentBlock :: BlockInfo

record Runtime =
  m_data :: RuntimeData
  m_stack :: "i256 list"
  m_memory :: bytes_vec
  m_ext :: ExtVMFace

text \<open>
  A failed \<open>assert\<close> ends the process, and nothing after it runs.
  \<open>Runtime::getReturnData\<close> is modelled as built with assertions enabled.
  \<open>RuntimeManager::get(Instruction)\<close> has a statement of its own behind its
  assertion, so there the build's \<open>NDEBUG\<close> setting is a parameter.  Dereferencing
  a null pointer is an error of its own.
\<close>

datatype error = AssertionFailed | NullDereference

text \<open>\<open>Runtime::set\<close>: \<open>m_data.elems[_index] = eth2llvm(_value)\<close>.\<close>

definition Runtime_set :: "Index \<Rightarrow> u256 \<Rightarrow> Runtime \<Rightarrow> Runtime" where
  "Runtime_set idx v r = r\<lparr>m_data := (m_data r)\<lparr>elems := (elems (m_data r))(idx := eth2llvm v)\<rparr>\<rparr>"

text \<open>
  The constructor \<open>Runtime::Runtime(_gas, _ext, _jmpBuf)\<close>.  The member \<open>m_data\<close> is
  not initialised before the body runs: \<open>uninit\<close> is whatever the storage holds then.
  The stack and the memory start empty.  A size (\<open>size_t\<close>) converts to \<open>u256\<close> by
  value.
\<close>

definition Runtime_ctor :: "RuntimeData \<Rightarrow> u256 \<Rightarrow> ExtVMFace \<Rightarrow> ptr \<Rightarrow> Runtime" where
  "Runtime_ctor uninit gas ext jb =
     (let r = \<lparr>m_data = uninit, m_stack = [],
               m_memory = \<lparr>vec_data = 0, vec_elems = []\<rparr>, m_ext = ext\<rparr>;
          r = Runtime_set Gas gas r;
          r = Runtime_set Address (fromAddress (myAddress ext)) r;
          r = Runtime_set Caller (fromAddress (caller ext)) r;
          r = Runtime_set Origin (fromAddress (origin ext)) r;
          r = Runtime_set CallValue (ext_value ext) r;
          r = Runtime_set CallDataSize (of_nat (ref_count (ext_data ext))) r;
          r = Runtime_set GasPrice (gasPrice ext) r;
          r = Runtime_set PrevHash (hash (previousBlock ext)) r;
          r = Runtime_set CoinBase (fromAddress (coinbaseAddress (currentBlock ext))) r;
          r = Runtime_set TimeStamp (timestamp (currentBlock ext)) r;
          r = Runtime_set Number (number (currentBlock ext)) r;
          r = Runtime_set Difficulty (difficulty (currentBlock ext)) r;
          r = Runtime_set GasLimit (gasLimit (currentBlock ext)) r;
          r = Runtime_set CodeSize (of_nat (length (vec_elems (ext_code ext)))) r;
          r = r\<lparr>m_data := (m_data r)\<lparr>callData := ref_data (ext_data ext)\<rparr>\<rparr>;
          r = r\<lparr>m_data := (m_data r)\<lparr>code := vec_data (ext_code ext)\<rparr>\<rparr>;
          r = r\<lparr>m_data := (m_data r)\<lparr>jmpBuf := jb\<rparr>\<rparr>
      in r)"

text \<open>\<open>Runtime::getGas\<close>.\<close>

definition Runtime_getGas :: "Runtime \<Rightarrow> u256" where
  "Runtime_getGas r = llvm2eth (elems (m_data r) Gas)"

text \<open>
  \<open>static_cast<size_t>\<close> of a \<open>u256\<close> keeps the low \<open>w\<close> bits, where \<open>w\<close> is the
  width of \<open>size_t\<close> on the host; \<open>size_t\<close> addition wraps at \<open>2 ^ w\<close>.
\<close>

definition static_cast_size_t :: "nat \<Rightarrow> u256 \<Rightarrow> nat" where
  "static_cast_size_t w v = unat v mod 2 ^ w"

definition size_t_add :: "nat \<Rightarrow> nat \<Rightarrow> nat \<Rightarrow> nat" where
  "size_t_add w x y = (x + y) mod 2 ^ w"

text \<open>
  \<open>Runtime::getReturnData\<close>, on a host whose \<open>size_t\<close> has \<open>w\<close> bits: both fields are
  cast to \<open>size_t\<close>, the assertion compares their \<open>size_t\<close> sum with the size of the
  memory, and the view is \<open>{m_memory.data() + offset, size}\<close>.
\<close>

definition getReturnData :: "nat \<Rightarrow> Runtime \<Rightarrow> error + bytesConstRef" where
  "getReturnData w r =
     (let offset = static_cast_size_t w (llvm2eth (elems (m_data r) ReturnDataOffset));
          size = static_cast_size_t w (llvm2eth (elems (m_data r) ReturnDataSize))
      in if size_t_add w offset size \<le> length (vec_elems (m_memory r))
         then Inr \<lparr>ref_data = vec_data (m_memory r) + offset, ref_count = size\<rparr>
         else Inl AssertionFailed)"

text \<open>The bytes a view into the memory of \<open>r\<close> covers.\<close>

definition view_bytes :: "Runtime \<Rightarrow> bytesConstRef \<Rightarrow> byte list" where
  "view_bytes r v =
     take (ref_count v) (drop (ref_data v - vec_data (m_memory r)) (vec_elems (m_memory r)))"

text \<open>Concrete inputs: an environment and a runtime with a 4-byte call.\<close>

definition example_block :: BlockInfo where
  "example_block = \<lparr>hash = 7, coinbaseAddress = 8, timestamp = 9, number = 10,
                     difficulty = 11, gasLimit = 12\<rparr>"

definition example_ext :: ExtVMFace where
  "example_ext = \<lparr>myAddress = 1, caller = 2, origin = 3, ext_value = 100,
                   ext_data = \<lparr>ref_data = 4096, ref_count = 4\<rparr>,
                   ext_code = \<lparr>vec_data = 8192, vec_elems = [0, 0, 0, 0, 0, 0, 0, 0, 0, 0]\<rparr>,
                   gasPrice = 6, previousBlock = example_block, currentBlock = example_block\<rparr>"

definition zero_data :: RuntimeData where
  "zero_data = \<lparr>elems = (\<lambda>_. eth2llvm 0), callData = 0, code = 0, jmpBuf = 0\<rparr>"

definition example_runtime :: "u256 \<Rightarrow> u256 \<Rightarrow> byte list \<Rightarrow> Runtime" where
  "example_runtime off sz mem =
     Runtime_set ReturnDataSize sz (Runtime_set ReturnDataOffset off
       ((Runtime_ctor zero_data 21000 example_ext 512)
          \<lparr>m_memory := \<lparr>vec_data = 16384, vec_elems = mem\<rparr>\<rparr>))"

section \<open>Generated code: types, values and the instruction builder\<close>

text \<open>
  The first-class types the file uses: \<open>Type::Word\<close>, \<open>Type::BytePtr\<close>,
  \<open>Type::RuntimePtr\<close>, \<open>Type::Void\<close>, the builder's 32-bit integer type and arrays.
\<close>

datatype Type = Word | BytePtr | RuntimePtr | Void | Int32 | ArrayType Type nat

record StructType =
  struct_name :: string
  struct_elems :: "Type list"

record FunctionType =
  fn_ret :: Type
  fn_params :: "Type list"
  fn_isVarArg :: bool

datatype Linkage = PrivateLinkage | ExternalLinkage

text \<open>
  The status code of an abort is the integer value of its \<open>ReturnCode\<close> enumerator;
  the enumeration is declared outside Runtime.cpp.
\<close>

type_synonym ReturnCode = int

text \<open>
  An \<open>llvm::Value*\<close>: an argument of a function, a global variable or a function of
  the module (each by its position in the module), a constant, the result of an
  instruction (by the function that holds it and its position there), or the null
  pointer.
\<close>

datatype Value =
    Argument nat nat
  | GlobalRef nat
  | FunctionRef nat
  | ConstInt32 nat
  | ConstReturnCode ReturnCode
  | UndefValue Type
  | InstResult nat nat
  | NullPtr

datatype Inst =
    Store Value Value
  | Load Value string
  | InBoundsGEP Value "Value list" string
  | StructGEP Value nat string
  | Call2 Value Value Value

record GlobalVariable =
  gv_type :: Type
  gv_isConstant :: bool
  gv_linkage :: Linkage
  gv_init :: Value
  gv_name :: string

text \<open>A function without a body (\<open>fn_body = None\<close>) is a declaration.\<close>

record Function =
  fn_type :: FunctionType
  fn_linkage :: Linkage
  fn_name :: string
  fn_body :: "Inst list option"

text \<open>
  The builder with its module: the module's global variables and functions, and the
  function the builder is emitting into.  New instructions go to the end of that
  function's body.
\<close>

record Builder =
  mod_globals :: "GlobalVariable list"
  mod_functions :: "Function list"
  insert_fn :: nat

definition nth_opt :: "'a list \<Rightarrow> nat \<Rightarrow> 'a option" where
  "nth_opt xs i = (if i < length xs then Some (xs ! i) else None)"

definition body_of :: "Builder \<Rightarrow> nat \<Rightarrow> Inst list" where
  "body_of bld k =
     (case nth_opt (mod_functions bld) k of
        None \<Rightarrow> []
      | Some f \<Rightarrow> (case fn_body f of None \<Rightarrow> [] | Some body \<Rightarrow> body))"

definition emit :: "Inst \<Rightarrow> Builder \<Rightarrow> Value \<times> Builder" where
  "emit i bld =
     (let k = insert_fn bld; fs = mod_functions bld
      in (InstResult k (length (body_of bld k)),
          case nth_opt fs k of
            None \<Rightarrow> bld
          | Some f \<Rightarrow> bld\<lparr>mod_functions := fs[k := f\<lparr>fn_body := Some (body_of bld k @ [i])\<rparr>]\<rparr>))"

definition SetInsertPoint :: "nat \<Rightarrow> Builder \<Rightarrow> Builder" where
  "SetInsertPoint k bld = bld\<lparr>insert_fn := k\<rparr>"

definition CreateStore :: "Value \<Rightarrow> Value \<Rightarrow> Builder \<Rightarrow> Value \<times> Builder" where
  "CreateStore v p bld = emit (Store v p) bld"

definition CreateLoad :: "Value \<Rightarrow> string \<Rightarrow> Builder \<Rightarrow> Value \<times> Builder" where
  "CreateLoad p name bld = emit (Load p name) bld"

definition CreateInBoundsGEP :: "Value \<Rightarrow> Value list \<Rightarrow> string \<Rightarrow> Builder \<Rightarrow> Value \<times> Builder" where
  "CreateInBoundsGEP p idxList name bld = emit (InBoundsGEP p idxList name) bld"

definition CreateStructGEP :: "Value \<Rightarrow> nat \<Rightarrow> string \<Rightarrow> Builder \<Rightarrow> Value \<times> Builder" where
  "CreateStructGEP p idx name bld = emit (StructGEP p idx name) bld"

definition CreateCall2 :: "Value \<Rightarrow> Value \<Rightarrow> Value \<Rightarrow> Builder \<Rightarrow> Value \<times> Builder" where
  "CreateCall2 callee arg1 arg2 bld = emit (Call2 callee arg1 arg2) bld"

text \<open>\<open>new llvm::GlobalVariable(module, ...)\<close> adds a global variable to the module.\<close>

definition new_GlobalVariable :: "GlobalVariable \<Rightarrow> Builder \<Rightarrow> Value \<times> Builder" where
  "new_GlobalVariable g bld =
     (GlobalRef (length (mod_globals bld)), bld\<lparr>mod_globals := mod_globals bld @ [g]\<rparr>)"

text \<open>\<open>llvm::Function::Create(type, linkage, name, module)\<close> adds a function without a body.\<close>

definition Function_Create :: "FunctionType \<Rightarrow> Linkage \<Rightarrow> string \<Rightarrow> Builder \<Rightarrow> Value \<times> Builder" where
  "Function_Create ty l name bld =
     (FunctionRef (length (mod_functions bld)),
      bld\<lparr>mod_functions := mod_functions bld @
             [\<lparr>fn_type = ty, fn_linkage = l, fn_name = name, fn_body = None\<rparr>]\<rparr>)"

text \<open>
  Modelled from the spec: \<open>getMainFunction\<close> belongs to the helper base class, which
  is not part of the sources.  The spec speaks of emitting into the designated entry
  function or into any other generated function: the result is the function being
  emitted into when that is the entry function (the one named \<open>main\<close>), and null
  (\<open>None\<close>) otherwise.  Without a function being emitted into there is nothing to
  look at.
\<close>

definition getMainFunction :: "Builder \<Rightarrow> error + nat option" where
  "getMainFunction bld =
     (case nth_opt (mod_functions bld) (insert_fn bld) of
        None \<Rightarrow> Inl NullDereference
      | Some f \<Rightarrow> if fn_name f = ''main'' then Inr (Some (insert_fn bld)) else Inr None)"

definition arg_count :: "Builder \<Rightarrow> nat \<Rightarrow> nat" where
  "arg_count bld k =
     (case nth_opt (mod_functions bld) k of
        None \<Rightarrow> 0
      | Some f \<Rightarrow> length (fn_params (fn_type f)))"

section \<open>The layout type\<close>

text \<open>
  \<open>RuntimeData::getType\<close>; the function-local static \<open>type\<close> is passed in and
  returned.
\<close>

definition RuntimeData_getType :: "StructType option \<Rightarrow> StructType \<times> StructType option" where
  "RuntimeData_getType cache =
     (case cache of
        None \<Rightarrow>
          (let elems = [ArrayType Word Index_size, BytePtr, BytePtr, BytePtr];
               ty = \<lparr>struct_name = ''Runtime'', struct_elems = elems\<rparr>
           in (ty, Some ty))
      | Some ty \<Rightarrow> (ty, Some ty))"

text \<open>
  Modelled from the spec: where a member of the layout lies, in bytes, is decided by
  the code generator's data layout, not by Runtime.cpp.  The spec's layout table puts
  the word array at offset 0 and every further member right behind the one before it;
  a word takes \<open>wordsize\<close> bytes and a pointer \<open>P\<close> bytes.
\<close>

fun allocSize :: "nat \<Rightarrow> nat \<Rightarrow> Type \<Rightarrow> nat" where
  "allocSize wordsize P Word = wordsize"
| "allocSize wordsize P BytePtr = P"
| "allocSize wordsize P RuntimePtr = P"
| "allocSize wordsize P Void = 0"
| "allocSize wordsize P Int32 = 4"
| "allocSize wordsize P (ArrayType t n) = n * allocSize wordsize P t"

definition elementOffset :: "nat \<Rightarrow> nat \<Rightarrow> StructType \<Rightarrow> nat \<Rightarrow> nat" where
  "elementOffset wordsize P ty i =
     sum_list (map (allocSize wordsize P) (take i (struct_elems ty)))"

section \<open>Runtime manager\<close>

fun getName :: "Index \<Rightarrow> string" where
  "getName Gas = ''gas''"
| "getName Address = ''address''"
| "getName Caller = ''caller''"
| "getName Origin = ''origin''"
| "getName CallValue = ''callvalue''"
| "getName CallDataSize = ''calldatasize''"
| "getName GasPrice = ''gasprice''"
| "getName PrevHash = ''prevhash''"
| "getName CoinBase = ''coinbase''"
| "getName TimeStamp = ''timestamp''"
| "getName Number = ''number''"
| "getName Difficulty = ''difficulty''"
| "getName GasLimit = ''gaslimit''"
| "getName CodeSize = ''codesize''"
| "getName _ = ''data''"

record RuntimeManager =
  m_dataPtr :: Value
  m_longjmp :: Value

text \<open>
  The constructor: a new global variable \<open>rt\<close>, a new function \<open>longjmp\<close>, and a
  store of the last argument of the main function into the global.  The code uses
  the result of \<open>getMainFunction\<close> unchecked, and \<open>back()\<close> of an empty argument
  list is no argument at all.
\<close>

definition RuntimeManager_ctor :: "Builder \<Rightarrow> error + (RuntimeManager \<times> Builder)" where
  "RuntimeManager_ctor bld =
     (let (dataPtr, b1) = new_GlobalVariable
            \<lparr>gv_type = RuntimePtr, gv_isConstant = False, gv_linkage = PrivateLinkage,
             gv_init = UndefValue RuntimePtr, gv_name = ''rt''\<rparr> bld;
          args = [BytePtr, Int32];
          (longjmp, b2) = Function_Create
            \<lparr>fn_ret = Void, fn_params = args, fn_isVarArg = False\<rparr> ExternalLinkage ''longjmp'' b1;
          rm = \<lparr>m_dataPtr = dataPtr, m_longjmp = longjmp\<rparr>
      in case getMainFunction b2 of
           Inl e \<Rightarrow> Inl e
         | Inr None \<Rightarrow> Inl NullDereference
         | Inr (Some mainFunc) \<Rightarrow>
             if arg_count b2 mainFunc = 0 then Inl NullDereference
             else Inr (rm, snd (CreateStore (Argument mainFunc (arg_count b2 mainFunc - 1))
                                  (m_dataPtr rm) b2)))"

text \<open>
  \<open>getRuntimePtr\<close>: in the main function its second argument, elsewhere a load from
  the global.  A main function with fewer than two arguments has no second one.
\<close>

definition getRuntimePtr :: "RuntimeManager \<Rightarrow> Builder \<Rightarrow> error + (Value \<times> Builder)" where
  "getRuntimePtr rm bld =
     (case getMainFunction bld of
        Inl e \<Rightarrow> Inl e
      | Inr (Some mainFunc) \<Rightarrow>
          if 2 \<le> arg_count bld mainFunc then Inr (Argument mainFunc 1, bld)
          else Inl NullDereference
      | Inr None \<Rightarrow> Inr (CreateLoad (m_dataPtr rm) ''rt'' bld))"

definition getPtr :: "RuntimeManager \<Rightarrow> Index \<Rightarrow> Builder \<Rightarrow> error + (Value \<times> Builder)" where
  "getPtr rm idx bld =
     (let idxList = [ConstInt32 0, ConstInt32 0, ConstInt32 (index_of idx)]
      in case getRuntimePtr rm bld of
           Inl e \<Rightarrow> Inl e
         | Inr (rp, b1) \<Rightarrow> Inr (CreateInBoundsGEP rp idxList (getName idx @ ''Ptr'') b1))"

definition RuntimeManager_get :: "RuntimeManager \<Rightarrow> Index \<Rightarrow> Builder \<Rightarrow> error + (Value \<times> Builder)" where
  "RuntimeManager_get rm idx bld =
     (case getPtr rm idx bld of
        Inl e \<Rightarrow> Inl e
      | Inr (p, b1) \<Rightarrow> Inr (CreateLoad p (getName idx) b1))"

definition RuntimeManager_set :: "RuntimeManager \<Rightarrow> Index \<Rightarrow> Value \<Rightarrow> Builder \<Rightarrow> error + Builder" where
  "RuntimeManager_set rm idx v bld =
     (case getPtr rm idx bld of
        Inl e \<Rightarrow> Inl e
      | Inr (p, b1) \<Rightarrow> Inr (snd (CreateStore v p b1)))"

definition registerReturnData :: "RuntimeManager \<Rightarrow> Value \<Rightarrow> Value \<Rightarrow> Builder \<Rightarrow> error + Builder" where
  "registerReturnData rm off sz bld =
     (case RuntimeManager_set rm ReturnDataOffset off bld of
        Inl e \<Rightarrow> Inl e
      | Inr b1 \<Rightarrow> RuntimeManager_set rm ReturnDataSize sz b1)"

definition getCallData :: "RuntimeManager \<Rightarrow> Builder \<Rightarrow> error + (Value \<times> Builder)" where
  "getCallData rm bld =
     (case getRuntimePtr rm bld of
        Inl e \<Rightarrow> Inl e
      | Inr (rp, b1) \<Rightarrow>
          (let (p, b2) = CreateStructGEP rp 1 ''calldataPtr'' b1
           in Inr (CreateLoad p ''calldata'' b2)))"

definition getCode :: "RuntimeManager \<Rightarrow> Builder \<Rightarrow> error + (Value \<times> Builder)" where
  "getCode rm bld =
     (case getRuntimePtr rm bld of
        Inl e \<Rightarrow> Inl e
      | Inr (rp, b1) \<Rightarrow>
          (let (p, b2) = CreateStructGEP rp 2 ''codePtr'' b1
           in Inr (CreateLoad p ''code'' b2)))"

definition getJmpBuf :: "RuntimeManager \<Rightarrow> Builder \<Rightarrow> error + (Value \<times> Builder)" where
  "getJmpBuf rm bld =
     (case getRuntimePtr rm bld of
        Inl e \<Rightarrow> Inl e
      | Inr (rp, b1) \<Rightarrow>
          (let (p, b2) = CreateStructGEP rp 3 ''jmpbufPtr'' b1
           in Inr (CreateLoad p ''jmpbuf'' b2)))"

definition raiseException :: "RuntimeManager \<Rightarrow> ReturnCode \<Rightarrow> Builder \<Rightarrow> error + Builder" where
  "raiseException rm returnCode bld =
     (case getJmpBuf rm bld of
        Inl e \<Rightarrow> Inl e
      | Inr (jb, b1) \<Rightarrow> Inr (snd (CreateCall2 (m_longjmp rm) jb (ConstReturnCode returnCode) b1)))"



definition RuntimeManager_getGas :: "RuntimeManager \<Rightarrow> Builder \<Rightarrow> error + (Value \<times> Builder)" where
  "RuntimeManager_getGas rm bld = RuntimeManager_get rm Gas bld"

definition setGas :: "RuntimeManager \<Rightarrow> Value \<Rightarrow> Builder \<Rightarrow> error + Builder" where
  "setGas rm gas bld =
     (let idxList = [ConstInt32 0, ConstInt32 0, ConstInt32 (index_of Gas)]
      in case getRuntimePtr rm bld of
           Inl e \<Rightarrow> Inl e
         | Inr (rp, b1) \<Rightarrow>
             (let (p, b2) = CreateInBoundsGEP rp idxList ''gasPtr'' b1
              in Inr (snd (CreateStore gas p b2))))"


section \<open>What the generated instructions do when they run\<close>

text \<open>
  Enough of the meaning of the generated code to follow the layout pointer and an
  abort: the store remembers, per address operand, the value last stored there; a
  load yields what the store holds at its address operand; every other value stands
  for itself.
\<close>

type_synonym store = "Value \<Rightarrow> Value option"

definition empty_store :: store where
  "empty_store = Map.empty"

text \<open>
  Modelled from the spec: the abort primitive is external, it is declared here and
  defined nowhere in this component.  The spec: it accepts a checkpoint handle and an
  integer status code, never returns to its caller, and transfers control to the
  point where the checkpoint was captured.  In a module it is the function
  \<open>longjmp\<close> with external linkage and without a body.
\<close>

definition is_abort_primitive :: "Builder \<Rightarrow> Value \<Rightarrow> bool" where
  "is_abort_primitive bld callee =
     (case callee of
        FunctionRef j \<Rightarrow>
          (case nth_opt (mod_functions bld) j of
             None \<Rightarrow> False
           | Some f \<Rightarrow> fn_name f = ''longjmp'' \<and> fn_linkage f = ExternalLinkage
                        \<and> fn_body f = None)
      | _ \<Rightarrow> False)"

text \<open>
  Running a sequence of instructions: either all of them run and leave a store, or
  control leaves at a call of the abort primitive, with the two arguments of that
  call, and no later instruction runs.  What another called function does is not
  followed.
\<close>

datatype outcome = Finished store | Aborted Value Value

fun run :: "Builder \<Rightarrow> Inst list \<Rightarrow> store \<Rightarrow> outcome" where
  "run bld [] s = Finished s"
| "run bld (Store v p # rest) s = run bld rest (s(p \<mapsto> v))"
| "run bld (Load p name # rest) s = run bld rest s"
| "run bld (InBoundsGEP p idxList name # rest) s = run bld rest s"
| "run bld (StructGEP p idx name # rest) s = run bld rest s"
| "run bld (Call2 callee arg1 arg2 # rest) s =
     (if is_abort_primitive bld callee then Aborted arg1 arg2 else run bld rest s)"

definition denote :: "Builder \<Rightarrow> store \<Rightarrow> Value \<Rightarrow> Value option" where
  "denote bld s v =
     (case v of
        InstResult k n \<Rightarrow>
          (case nth_opt (body_of bld k) n of
             Some (Load p _) \<Rightarrow> s p
           | _ \<Rightarrow> Some v)
      | _ \<Rightarrow> Some v)"


section \<open>Concrete modules\<close>

text \<open>
  The global variable and the declaration the constructor of the runtime manager
  creates, and a module with a two-parameter main function and one helper function:
  before any runtime manager is constructed, after one construction and after two.
\<close>

definition rt_global :: GlobalVariable where
  "rt_global = \<lparr>gv_type = RuntimePtr, gv_isConstant = False, gv_linkage = PrivateLinkage,
                 gv_init = UndefValue RuntimePtr, gv_name = ''rt''\<rparr>"

definition longjmp_declaration :: Function where
  "longjmp_declaration =
     \<lparr>fn_type = \<lparr>fn_ret = Void, fn_params = [BytePtr, Int32], fn_isVarArg = False\<rparr>,
      fn_linkage = ExternalLinkage, fn_name = ''longjmp'', fn_body = None\<rparr>"

fun is_call :: "Inst \<Rightarrow> bool" where
  "is_call (Call2 _ _ _) = True"
| "is_call _ = False"

definition example_main :: "Inst list \<Rightarrow> Function" where
  "example_main body =
     \<lparr>fn_type = \<lparr>fn_ret = Int32, fn_params = [Int32, RuntimePtr], fn_isVarArg = False\<rparr>,
      fn_linkage = ExternalLinkage, fn_name = ''main'', fn_body = Some body\<rparr>"

definition example_helper :: "Inst list \<Rightarrow> Function" where
  "example_helper body =
     \<lparr>fn_type = \<lparr>fn_ret = Void, fn_params = [Word], fn_isVarArg = False\<rparr>,
      fn_linkage = PrivateLinkage, fn_name = ''helper'', fn_body = Some body\<rparr>"

definition example_builder :: Builder where
  "example_builder =
     \<lparr>mod_globals = [], mod_functions = [example_main [], example_helper []], insert_fn = 0\<rparr>"

definition example_rm :: RuntimeManager where
  "example_rm = \<lparr>m_dataPtr = GlobalRef 0, m_longjmp = FunctionRef 2\<rparr>"

definition example_built :: Builder where
  "example_built =
     \<lparr>mod_globals = [rt_global],
      mod_functions = [example_main [Store (Argument 0 1) (GlobalRef 0)], example_helper [],
                       longjmp_declaration],
      insert_fn = 0\<rparr>"

definition example_rm2 :: RuntimeManager where
  "example_rm2 = \<lparr>m_dataPtr = GlobalRef 1, m_longjmp = FunctionRef 3\<rparr>"

definition example_built_twice :: Builder where
  "example_built_twice =
     \<lparr>mod_globals = [rt_global, rt_global],
      mod_functions = [example_main [Store (Argument 0 1) (GlobalRef 0),
                                     Store (Argument 0 1) (GlobalRef 1)],
                       example_helper [], longjmp_declaration, longjmp_declaration],
      insert_fn = 0\<rparr>"





definition example_in_helper :: Builder where
  "example_in_helper =
     \<lparr>mod_globals = [rt_global],
      mod_functions = [example_main [Store (Argument 0 1) (GlobalRef 0)],
                       example_helper [Load (GlobalRef 0) ''rt''], longjmp_declaration],
      insert_fn = 1\<rparr>"

text \<open>Two constructions in a row, on the same module.\<close>

definition construct_twice :: "Builder \<Rightarrow> error + (RuntimeManager \<times> RuntimeManager \<times> Builder)" where
  "construct_twice bld =
     (case RuntimeManager_ctor bld of
        Inl e \<Rightarrow> Inl e
      | Inr (rm1, b1) \<Rightarrow>
          (case RuntimeManager_ctor b1 of
             Inl e \<Rightarrow> Inl e
           | Inr (rm2, b2) \<Rightarrow> Inr (rm1, rm2, b2)))"

section \<open>Marshalling: proofs\<close>

lemma mask64_eq: "mask64 = mask 64"
  by (simp add: mask64_def mask_eq_exp_minus_1)

lemma llvm2eth_eth2llvm: "llvm2eth (eth2llvm v) = v"
proof (rule bit_word_eqI)
  fix n assume "n < LENGTH(256)"
  then have n: "n < 256" by simp
  consider "n < 64" | "64 \<le> n" "n < 128" | "128 \<le> n" "n < 192" | "192 \<le> n"
    by linarith
  then show "bit (llvm2eth (eth2llvm v)) n = bit v n"
  proof cases
    case 1
    then show ?thesis
      by (simp add: llvm2eth_def eth2llvm_def Let_def mask64_eq bit_simps)
  next
    case 2
    then show ?thesis
      by (auto simp add: llvm2eth_def eth2llvm_def Let_def mask64_eq bit_simps)
  next
    case 3
    then show ?thesis
      by (auto simp add: llvm2eth_def eth2llvm_def Let_def mask64_eq bit_simps)
  next
    case 4
    with n show ?thesis
      by (auto simp add: llvm2eth_def eth2llvm_def Let_def mask64_eq bit_simps)
  qed
qed

lemma limb_a_roundtrip: "limb_a (eth2llvm (llvm2eth w)) = limb_a w"
  by (rule bit_word_eqI)
     (auto simp add: llvm2eth_def eth2llvm_def Let_def mask64_eq bit_simps dest: bit_imp_le_length)

lemma limb_b_roundtrip: "limb_b (eth2llvm (llvm2eth w)) = limb_b w"
  by (rule bit_word_eqI)
     (auto simp add: llvm2eth_def eth2llvm_def Let_def mask64_eq bit_simps dest: bit_imp_le_length)

lemma limb_c_roundtrip: "limb_c (eth2llvm (llvm2eth w)) = limb_c w"
  by (rule bit_word_eqI)
     (auto simp add: llvm2eth_def eth2llvm_def Let_def mask64_eq bit_simps dest: bit_imp_le_length)

lemma limb_d_roundtrip: "limb_d (eth2llvm (llvm2eth w)) = limb_d w"
  by (rule bit_word_eqI)
     (auto simp add: llvm2eth_def eth2llvm_def Let_def mask64_eq bit_simps dest: bit_imp_le_length)

lemma eth2llvm_llvm2eth: "eth2llvm (llvm2eth w) = (w::i256)"
  by (rule i256.equality) (simp_all add: limb_a_roundtrip limb_b_roundtrip limb_c_roundtrip limb_d_roundtrip)

text \<open>
  C3.  Converting a 256-bit integer to the in-layout word and back gives the integer
  again, for every 256-bit value; and converting a layout word to an integer and back
  gives the word again: the two conversions are mutual inverses.
\<close>

theorem marshalling_roundtrip:
  "llvm2eth (eth2llvm v) = v \<and> eth2llvm (llvm2eth w) = (w::i256)"
  by (simp add: llvm2eth_eth2llvm eth2llvm_llvm2eth)

text \<open>
  C7.  \<open>fromAddress\<close> zero-extends: truncating its result to the low 160 bits gives
  the address back, and the high 96 bits of the result are zero.
\<close>

theorem fromAddress_zero_extends:
  "(ucast (fromAddress x) :: Address) = x \<and> drop_bit 160 (fromAddress x) = 0"
proof
  show "(ucast (fromAddress x) :: Address) = x"
    by (rule bit_word_eqI) (auto simp: fromAddress_def bit_simps)
  show "drop_bit 160 (fromAddress x) = 0"
    by (rule bit_word_eqI) (auto simp: fromAddress_def bit_simps dest: bit_imp_le_length)
qed


section \<open>Runtime (host side): proofs\<close>

lemma Runtime_set_elems:
  "elems (m_data (Runtime_set idx v r)) = (elems (m_data r))(idx := eth2llvm v)"
  by (simp add: Runtime_set_def)

lemma Runtime_set_other:
  "callData (m_data (Runtime_set idx v r)) = callData (m_data r)"
  "code (m_data (Runtime_set idx v r)) = code (m_data r)"
  "jmpBuf (m_data (Runtime_set idx v r)) = jmpBuf (m_data r)"
  "m_memory (Runtime_set idx v r) = m_memory r"
  "m_stack (Runtime_set idx v r) = m_stack r"
  "m_ext (Runtime_set idx v r) = m_ext r"
  by (simp_all add: Runtime_set_def)

lemma Runtime_ctor_elems:
  "elems (m_data (Runtime_ctor uninit gas ext jb)) =
     (elems uninit)
       (Gas := eth2llvm gas,
        Address := eth2llvm (fromAddress (myAddress ext)),
        Caller := eth2llvm (fromAddress (caller ext)),
        Origin := eth2llvm (fromAddress (origin ext)),
        CallValue := eth2llvm (ext_value ext),
        CallDataSize := eth2llvm (of_nat (ref_count (ext_data ext))),
        GasPrice := eth2llvm (gasPrice ext),
        PrevHash := eth2llvm (hash (previousBlock ext)),
        CoinBase := eth2llvm (fromAddress (coinbaseAddress (currentBlock ext))),
        TimeStamp := eth2llvm (timestamp (currentBlock ext)),
        Number := eth2llvm (number (currentBlock ext)),
        Difficulty := eth2llvm (difficulty (currentBlock ext)),
        GasLimit := eth2llvm (gasLimit (currentBlock ext)),
        CodeSize := eth2llvm (of_nat (length (vec_elems (ext_code ext)))))"
  by (simp add: Runtime_ctor_def Let_def Runtime_set_def)

lemma Runtime_ctor_ptrs:
  "callData (m_data (Runtime_ctor uninit gas ext jb)) = ref_data (ext_data ext)"
  "code (m_data (Runtime_ctor uninit gas ext jb)) = vec_data (ext_code ext)"
  "jmpBuf (m_data (Runtime_ctor uninit gas ext jb)) = jb"
  "m_ext (Runtime_ctor uninit gas ext jb) = ext"
  "vec_elems (m_memory (Runtime_ctor uninit gas ext jb)) = []"
  by (simp_all add: Runtime_ctor_def Let_def Runtime_set_def)

text \<open>
  C4.  For every gas value, environment and checkpoint, and whatever the storage of
  the layout held before, the constructor yields a runtime (it has no failing
  branch) in which each of the fourteen named word fields holds the layout word of
  the matching argument, the call-data and code pointers are those of the
  environment's buffers, the checkpoint handle is stored, and the two return-data
  word fields still hold what the storage held before: nothing is written there.
\<close>

theorem Runtime_ctor_populates:
  fixes uninit :: RuntimeData and gas :: u256 and ext :: ExtVMFace and jb :: ptr
  defines "r \<equiv> Runtime_ctor uninit gas ext jb"
  shows "elems (m_data r) Gas = eth2llvm gas
    \<and> elems (m_data r) Address = eth2llvm (fromAddress (myAddress ext))
    \<and> elems (m_data r) Caller = eth2llvm (fromAddress (caller ext))
    \<and> elems (m_data r) Origin = eth2llvm (fromAddress (origin ext))
    \<and> elems (m_data r) CallValue = eth2llvm (ext_value ext)
    \<and> elems (m_data r) CallDataSize = eth2llvm (of_nat (ref_count (ext_data ext)))
    \<and> elems (m_data r) GasPrice = eth2llvm (gasPrice ext)
    \<and> elems (m_data r) PrevHash = eth2llvm (hash (previousBlock ext))
    \<and> elems (m_data r) CoinBase = eth2llvm (fromAddress (coinbaseAddress (currentBlock ext)))
    \<and> elems (m_data r) TimeStamp = eth2llvm (timestamp (currentBlock ext))
    \<and> elems (m_data r) Number = eth2llvm (number (currentBlock ext))
    \<and> elems (m_data r) Difficulty = eth2llvm (difficulty (currentBlock ext))
    \<and> elems (m_data r) GasLimit = eth2llvm (gasLimit (currentBlock ext))
    \<and> elems (m_data r) CodeSize = eth2llvm (of_nat (length (vec_elems (ext_code ext))))
    \<and> callData (m_data r) = ref_data (ext_data ext)
    \<and> code (m_data r) = vec_data (ext_code ext)
    \<and> jmpBuf (m_data r) = jb
    \<and> elems (m_data r) ReturnDataOffset = elems uninit ReturnDataOffset
    \<and> elems (m_data r) ReturnDataSize = elems uninit ReturnDataSize
    \<and> Runtime_getGas r = gas"
  unfolding r_def by (simp add: Runtime_ctor_elems Runtime_ctor_ptrs Runtime_getGas_def llvm2eth_eth2llvm)

lemma static_cast_take_bit: "static_cast_size_t w (take_bit w v) = static_cast_size_t w v"
  by (simp add: static_cast_size_t_def unsigned_take_bit_eq flip: take_bit_eq_mod)

lemma getReturnData_set:
  "getReturnData w (Runtime_set ReturnDataSize sz (Runtime_set ReturnDataOffset off r)) =
     (let offset = static_cast_size_t w off; size = static_cast_size_t w sz
      in if size_t_add w offset size \<le> length (vec_elems (m_memory r))
         then Inr \<lparr>ref_data = vec_data (m_memory r) + offset, ref_count = size\<rparr>
         else Inl AssertionFailed)"
  by (simp add: getReturnData_def Let_def Runtime_set_elems Runtime_set_other llvm2eth_eth2llvm)

text \<open>
  Where the range lies within the memory, and the memory is no longer than
  \<open>size_t\<close> can count, the view is the \<open>sz\<close> bytes from \<open>off\<close> on.
\<close>

lemma getReturnData_in_range:
  assumes "unat off + unat sz \<le> length (vec_elems (m_memory r))"
    and "length (vec_elems (m_memory r)) < 2 ^ w"
    and "llvm2eth (elems (m_data r) ReturnDataOffset) = off"
    and "llvm2eth (elems (m_data r) ReturnDataSize) = sz"
  shows "getReturnData w r =
           Inr \<lparr>ref_data = vec_data (m_memory r) + unat off, ref_count = unat sz\<rparr>"
    and "view_bytes r \<lparr>ref_data = vec_data (m_memory r) + unat off, ref_count = unat sz\<rparr> =
           take (unat sz) (drop (unat off) (vec_elems (m_memory r)))"
    and "length (view_bytes r \<lparr>ref_data = vec_data (m_memory r) + unat off, ref_count = unat sz\<rparr>)
           = unat sz"
  using assms
  by (simp_all add: getReturnData_def Let_def static_cast_size_t_def size_t_add_def view_bytes_def)

text \<open>
  C1.  The claim: with offset \<open>O\<close>, size \<open>S\<close> and a memory of length \<open>L\<close>,
  \<open>getReturnData\<close> returns an empty view, without failing fatally and without reaching
  past \<open>L\<close>, whenever \<open>O + S > L\<close>.  The code at two such inputs, on a 64-bit host and
  with an empty memory: for \<open>O = 0\<close>, \<open>S = 1\<close> the assertion fails; for
  \<open>O = 2 ^ 64 - 1\<close>, \<open>S = 1\<close> the \<open>size_t\<close> sum wraps to 0, the assertion
  passes, and the view is one byte long and starts \<open>2 ^ 64 - 1\<close> bytes behind the
  start of the memory.
\<close>

theorem getReturnData_out_of_range:
  "getReturnData 64 (example_runtime 0 1 []) = Inl AssertionFailed
   \<and> getReturnData 64 (example_runtime 18446744073709551615 1 []) =
       Inr \<lparr>ref_data = 16384 + 18446744073709551615, ref_count = 1\<rparr>"
  by (simp add: example_runtime_def getReturnData_set Let_def static_cast_size_t_def
        size_t_add_def)

text \<open>
  C10.  \<open>getReturnData\<close> casts the stored offset and size to \<open>size_t\<close> (\<open>w\<close> bits)
  before it compares anything: the cast is reduction modulo \<open>2 ^ w\<close>, and the result
  for stored values \<open>off\<close>, \<open>sz\<close> is the result for their low \<open>w\<close> bits.  So on a
  64-bit host a stored offset of \<open>2 ^ 64\<close> with size 0 passes the check on an empty
  memory and gives a view at offset 0, and offset \<open>2 ^ 64 + 1\<close> with size
  \<open>2 ^ 200 + 2\<close> gives, on a memory of five bytes, the two bytes from offset 1 on.
\<close>

theorem getReturnData_truncates_to_size_t:
  "static_cast_size_t w off = unat off mod 2 ^ w
   \<and> getReturnData w (Runtime_set ReturnDataSize sz (Runtime_set ReturnDataOffset off r)) =
       getReturnData w (Runtime_set ReturnDataSize (take_bit w sz)
                         (Runtime_set ReturnDataOffset (take_bit w off) r))
   \<and> getReturnData 64 (example_runtime (2 ^ 64) 0 []) =
       Inr \<lparr>ref_data = 16384, ref_count = 0\<rparr>
   \<and> getReturnData 64 (example_runtime (2 ^ 64 + 1) (2 ^ 200 + 2) [1, 2, 3, 4, 5]) =
       Inr \<lparr>ref_data = 16385, ref_count = 2\<rparr>"
proof (intro conjI)
  show "static_cast_size_t w off = unat off mod 2 ^ w"
    by (simp add: static_cast_size_t_def)
  show "getReturnData w (Runtime_set ReturnDataSize sz (Runtime_set ReturnDataOffset off r)) =
       getReturnData w (Runtime_set ReturnDataSize (take_bit w sz)
                         (Runtime_set ReturnDataOffset (take_bit w off) r))"
    by (simp add: getReturnData_set Let_def static_cast_take_bit)
  show "getReturnData 64 (example_runtime (2 ^ 64) 0 []) = Inr \<lparr>ref_data = 16384, ref_count = 0\<rparr>"
    by (simp add: example_runtime_def getReturnData_set Let_def static_cast_size_t_def
          size_t_add_def)
  show "getReturnData 64 (example_runtime (2 ^ 64 + 1) (2 ^ 200 + 2) [1, 2, 3, 4, 5]) =
       Inr \<lparr>ref_data = 16385, ref_count = 2\<rparr>"
    by (simp add: example_runtime_def getReturnData_set Let_def static_cast_size_t_def
          size_t_add_def)
qed

section \<open>Emission: basic facts\<close>

lemma nth_opt_Some_iff: "nth_opt xs i = Some x \<longleftrightarrow> i < length xs \<and> xs ! i = x"
  by (auto simp: nth_opt_def)

lemma emit_fst: "fst (emit i bld) = InstResult (insert_fn bld) (length (body_of bld (insert_fn bld)))"
  by (simp add: emit_def Let_def)

lemma emit_insert_fn: "insert_fn (snd (emit i bld)) = insert_fn bld"
  by (simp add: emit_def Let_def split: option.splits)

lemma emit_globals: "mod_globals (snd (emit i bld)) = mod_globals bld"
  by (simp add: emit_def Let_def split: option.splits)

lemma emit_length: "length (mod_functions (snd (emit i bld))) = length (mod_functions bld)"
  by (simp add: emit_def Let_def split: option.splits)

lemma emit_fn_name:
  "map fn_name (mod_functions (snd (emit i bld))) = map fn_name (mod_functions bld)"
  by (auto simp: emit_def Let_def nth_opt_Some_iff map_update list_update_same_conv
           split: option.splits)

lemma emit_fn_type:
  "map fn_type (mod_functions (snd (emit i bld))) = map fn_type (mod_functions bld)"
  by (auto simp: emit_def Let_def nth_opt_Some_iff map_update list_update_same_conv
           split: option.splits)

lemma emit_body:
  "insert_fn bld < length (mod_functions bld) \<Longrightarrow>
   body_of (snd (emit i bld)) k =
     (if k = insert_fn bld then body_of bld k @ [i] else body_of bld k)"
  by (auto simp: emit_def Let_def body_of_def nth_opt_def split: option.splits)

lemma nth_opt_map: "nth_opt (map f xs) i = map_option f (nth_opt xs i)"
  by (simp add: nth_opt_def)

lemma fn_name_nth:
  "map_option fn_name (nth_opt (mod_functions (snd (emit i bld))) k) =
   map_option fn_name (nth_opt (mod_functions bld) k)"
  using emit_fn_name [of i bld] by (metis nth_opt_map)

lemma fn_type_nth:
  "map_option fn_type (nth_opt (mod_functions (snd (emit i bld))) k) =
   map_option fn_type (nth_opt (mod_functions bld) k)"
  using emit_fn_type [of i bld] by (metis nth_opt_map)

lemma getMainFunction_alt:
  "getMainFunction bld =
     (case map_option fn_name (nth_opt (mod_functions bld) (insert_fn bld)) of
        None \<Rightarrow> Inl NullDereference
      | Some n \<Rightarrow> if n = ''main'' then Inr (Some (insert_fn bld)) else Inr None)"
  by (simp add: getMainFunction_def split: option.splits)

lemma arg_count_alt:
  "arg_count bld k =
     (case map_option fn_type (nth_opt (mod_functions bld) k) of
        None \<Rightarrow> 0 | Some t \<Rightarrow> length (fn_params t))"
  by (simp add: arg_count_def split: option.splits)

lemma emit_getMainFunction: "getMainFunction (snd (emit i bld)) = getMainFunction bld"
  by (simp only: getMainFunction_alt fn_name_nth emit_insert_fn)

lemma emit_arg_count: "arg_count (snd (emit i bld)) k = arg_count bld k"
  by (simp only: arg_count_alt fn_type_nth)

lemma getMainFunction_valid:
  "getMainFunction bld = Inr r \<Longrightarrow> insert_fn bld < length (mod_functions bld)"
  by (auto simp: getMainFunction_def nth_opt_def split: option.splits if_splits)

lemma getMainFunction_Some:
  "getMainFunction bld = Inr (Some m) \<Longrightarrow> m = insert_fn bld"
  by (auto simp: getMainFunction_def split: option.splits if_splits)

section \<open>getRuntimePtr\<close>



lemma getRuntimePtr_Inr:
  assumes "getRuntimePtr rm bld = Inr (rp, b1)"
  shows "insert_fn b1 = insert_fn bld"
    and "insert_fn bld < length (mod_functions bld)"
    and "length (mod_functions b1) = length (mod_functions bld)"
    and "mod_globals b1 = mod_globals bld"
    and "getMainFunction b1 = getMainFunction bld"
proof -
  from assms obtain r where r: "getMainFunction bld = Inr r"
    by (auto simp: getRuntimePtr_def split: sum.splits)
  then show "insert_fn bld < length (mod_functions bld)"
    by (rule getMainFunction_valid)
  from assms r have "b1 = bld \<or> b1 = snd (emit (Load (m_dataPtr rm) ''rt'') bld)"
    by (auto simp: getRuntimePtr_def CreateLoad_def split: option.splits if_splits)
  then show "insert_fn b1 = insert_fn bld"
    and "length (mod_functions b1) = length (mod_functions bld)"
    and "mod_globals b1 = mod_globals bld"
    and "getMainFunction b1 = getMainFunction bld"
    by (auto simp: emit_insert_fn emit_length emit_globals emit_getMainFunction)
qed

section \<open>Constructor\<close>

lemma ctor_Inr:
  assumes "RuntimeManager_ctor bld = Inr (rm, b1)"
  defines "m \<equiv> insert_fn bld"
  defines "g \<equiv> \<lparr>gv_type = RuntimePtr, gv_isConstant = False, gv_linkage = PrivateLinkage,
             gv_init = UndefValue RuntimePtr, gv_name = ''rt''\<rparr>"
  defines "lj \<equiv> \<lparr>fn_type = \<lparr>fn_ret = Void, fn_params = [BytePtr, Int32], fn_isVarArg = False\<rparr>,
             fn_linkage = ExternalLinkage, fn_name = ''longjmp'', fn_body = None\<rparr>"
  defines "b0 \<equiv> bld\<lparr>mod_globals := mod_globals bld @ [g], mod_functions := mod_functions bld @ [lj]\<rparr>"
  shows "m_dataPtr rm = GlobalRef (length (mod_globals bld))"
    and "m_longjmp rm = FunctionRef (length (mod_functions bld))"
    and "getMainFunction bld = Inr (Some m)"
    and "0 < arg_count bld m"
    and "b1 = snd (emit (Store (Argument m (arg_count bld m - 1)) (m_dataPtr rm)) b0)"
proof -
  have gm: "getMainFunction bld = Inr (Some k)" if "getMainFunction b0 = Inr (Some k)" for k
    using that
    by (auto simp: b0_def lj_def getMainFunction_def nth_opt_def nth_append
          split: option.splits if_splits)
  have ac: "insert_fn bld < length (mod_functions bld) \<Longrightarrow> arg_count b0 m = arg_count bld m"
    by (auto simp: b0_def arg_count_def nth_opt_def nth_append m_def)
  from assms(1) obtain mf where mf: "getMainFunction b0 = Inr (Some mf)"
    by (auto simp: RuntimeManager_ctor_def Let_def new_GlobalVariable_def Function_Create_def
          b0_def g_def lj_def split: sum.splits option.splits)
  then have gm': "getMainFunction bld = Inr (Some mf)" by (rule gm)
  then have mfm: "mf = m" unfolding m_def by (rule getMainFunction_Some)
  from gm' have v: "insert_fn bld < length (mod_functions bld)" by (rule getMainFunction_valid)
  show "getMainFunction bld = Inr (Some m)" using gm' mfm by simp
  from assms(1) mf mfm show "m_dataPtr rm = GlobalRef (length (mod_globals bld))"
    and "m_longjmp rm = FunctionRef (length (mod_functions bld))"
    by (auto simp: RuntimeManager_ctor_def Let_def new_GlobalVariable_def Function_Create_def
          b0_def g_def lj_def split: if_splits)
  from assms(1) mf mfm ac[OF v] show "0 < arg_count bld m"
    by (auto simp: RuntimeManager_ctor_def Let_def new_GlobalVariable_def Function_Create_def
          b0_def g_def lj_def split: if_splits)
  from assms(1) mf mfm ac[OF v]
  show "b1 = snd (emit (Store (Argument m (arg_count bld m - 1)) (m_dataPtr rm)) b0)"
    by (auto simp: RuntimeManager_ctor_def Let_def new_GlobalVariable_def Function_Create_def
          CreateStore_def b0_def g_def lj_def split: if_splits)
qed


lemma SetInsertPoint_simps:
  "insert_fn (SetInsertPoint k bld) = k"
  "mod_functions (SetInsertPoint k bld) = mod_functions bld"
  "mod_globals (SetInsertPoint k bld) = mod_globals bld"
  "body_of (SetInsertPoint k bld) j = body_of bld j"
  "arg_count (SetInsertPoint k bld) j = arg_count bld j"
  by (simp_all add: SetInsertPoint_def body_of_def arg_count_def)


lemma emit_other_fn:
  "j \<noteq> insert_fn bld \<Longrightarrow>
   nth_opt (mod_functions (snd (emit i bld))) j = nth_opt (mod_functions bld) j"
  by (auto simp: emit_def Let_def nth_opt_def split: option.splits)

lemma getRuntimePtr_other_fn:
  assumes "getRuntimePtr rm bld = Inr (rp, b1)" and "j \<noteq> insert_fn bld"
  shows "nth_opt (mod_functions b1) j = nth_opt (mod_functions bld) j"
proof -
  from assms(1) have "b1 = bld \<or> b1 = snd (emit (Load (m_dataPtr rm) ''rt'') bld)"
    by (auto simp: getRuntimePtr_def CreateLoad_def split: sum.splits option.splits if_splits)
  then show ?thesis using assms(2) by (auto simp: emit_other_fn)
qed

lemma run_single_store: "run bld [Store v p] s = Finished (s(p \<mapsto> v))"
  by simp



lemma denote_load:
  "nth_opt (body_of bld k) n = Some (Load p name) \<Longrightarrow> denote bld s (InstResult k n) = s p"
  by (simp add: denote_def)


lemma ctor_result:
  assumes "RuntimeManager_ctor bld = Inr (rm, b1)"
  defines "m \<equiv> insert_fn bld"
  defines "b0 \<equiv> bld\<lparr>mod_globals := mod_globals bld @ [rt_global],
                     mod_functions := mod_functions bld @ [longjmp_declaration]\<rparr>"
  shows "m_dataPtr rm = GlobalRef (length (mod_globals bld))"
    and "m_longjmp rm = FunctionRef (length (mod_functions bld))"
    and "getMainFunction bld = Inr (Some m)"
    and "0 < arg_count bld m"
    and "b1 = snd (emit (Store (Argument m (arg_count bld m - 1)) (m_dataPtr rm)) b0)"
  using ctor_Inr [OF assms(1)]
  by (simp_all add: m_def b0_def rt_global_def longjmp_declaration_def)

lemma ctor_facts:
  assumes "RuntimeManager_ctor bld = Inr (rm, b1)"
  defines "m \<equiv> insert_fn bld"
  shows "m < length (mod_functions bld)"
    and "insert_fn b1 = m"
    and "getMainFunction b1 = Inr (Some m)"
    and "arg_count b1 m = arg_count bld m"
    and "body_of b1 m =
           body_of bld m @ [Store (Argument m (arg_count bld m - 1)) (m_dataPtr rm)]"
    and "j \<noteq> m \<Longrightarrow> j < length (mod_functions bld) \<Longrightarrow> body_of b1 j = body_of bld j"
    and "mod_globals b1 = mod_globals bld @ [rt_global]"
    and "length (mod_functions b1) = Suc (length (mod_functions bld))"
    and "nth_opt (mod_functions b1) (length (mod_functions bld)) = Some longjmp_declaration"
proof -
  define b0 where "b0 = bld\<lparr>mod_globals := mod_globals bld @ [rt_global],
                     mod_functions := mod_functions bld @ [longjmp_declaration]\<rparr>"
  define st where "st = Store (Argument m (arg_count bld m - 1)) (m_dataPtr rm)"
  note r = ctor_result [OF assms(1), folded m_def b0_def]
  have b1: "b1 = snd (emit st b0)" using r(5) by (simp add: st_def)
  show v: "m < length (mod_functions bld)"
    using getMainFunction_valid [OF r(3)] by (simp add: m_def)
  have i0: "insert_fn b0 = m" by (simp add: b0_def m_def)
  have v0: "insert_fn b0 < length (mod_functions b0)" using v by (simp add: b0_def m_def)
  have body0: "body_of b0 j = body_of bld j" if "j < length (mod_functions bld)" for j
    using that by (simp add: body_of_def b0_def nth_opt_def nth_append)
  have gm0: "getMainFunction b0 = Inr (Some m)"
    using r(3) v by (auto simp: getMainFunction_def b0_def nth_opt_def nth_append m_def
        split: if_splits)
  have ac0: "arg_count b0 m = arg_count bld m"
    using v by (simp add: arg_count_def b0_def nth_opt_def nth_append)
  show "insert_fn b1 = m" by (simp add: b1 emit_insert_fn i0)
  show "getMainFunction b1 = Inr (Some m)" by (simp add: b1 emit_getMainFunction gm0)
  show "arg_count b1 m = arg_count bld m" by (simp add: b1 emit_arg_count ac0)
  show "body_of b1 m = body_of bld m @ [Store (Argument m (arg_count bld m - 1)) (m_dataPtr rm)]"
    by (simp add: b1 emit_body [OF v0] i0 body0 [OF v] st_def)
  show "body_of b1 j = body_of bld j" if "j \<noteq> m" "j < length (mod_functions bld)"
    using that by (simp add: b1 emit_body [OF v0] i0 body0)
  show "mod_globals b1 = mod_globals bld @ [rt_global]"
    by (simp add: b1 emit_globals) (simp add: b0_def)
  show "length (mod_functions b1) = Suc (length (mod_functions bld))"
    by (simp add: b1 emit_length) (simp add: b0_def)
  have "mod_functions b1 ! length (mod_functions bld) = longjmp_declaration"
    using v by (simp add: b1 emit_def Let_def nth_opt_def i0 b0_def m_def nth_append
        split: option.splits)
  then show "nth_opt (mod_functions b1) (length (mod_functions bld)) = Some longjmp_declaration"
    using \<open>length (mod_functions b1) = Suc (length (mod_functions bld))\<close>
    by (simp add: nth_opt_def)
qed

section \<open>The concrete module\<close>

lemma example_ctor: "RuntimeManager_ctor example_builder = Inr (example_rm, example_built)"
  by (simp add: RuntimeManager_ctor_def new_GlobalVariable_def Function_Create_def
        getMainFunction_def arg_count_def nth_opt_def CreateStore_def emit_def body_of_def
        Let_def example_builder_def example_rm_def example_built_def example_main_def
        rt_global_def longjmp_declaration_def)

lemma example_built_simps:
  "insert_fn example_built = 0"
  "body_of example_built 0 = [Store (Argument 0 1) (GlobalRef 0)]"
  "body_of example_built 1 = []"
  "m_dataPtr example_rm = GlobalRef 0"
  "m_longjmp example_rm = FunctionRef 2"
  by (simp_all add: body_of_def nth_opt_def example_built_def example_rm_def example_main_def
        example_helper_def)

lemma example_getRuntimePtr_main:
  "getRuntimePtr example_rm example_built = Inr (Argument 0 1, example_built)"
  by (simp add: getRuntimePtr_def getMainFunction_def arg_count_def nth_opt_def
        example_built_def example_main_def)

lemma example_getRuntimePtr_helper:
  "getRuntimePtr example_rm (SetInsertPoint 1 example_built) =
     Inr (InstResult 1 0, example_in_helper)"
  by (simp add: getRuntimePtr_def getMainFunction_def nth_opt_def SetInsertPoint_def
        CreateLoad_def emit_def body_of_def Let_def example_built_def example_in_helper_def
        example_rm_def example_helper_def)


section \<open>Runtime manager: the claims\<close>




lemma getRuntimePtr_emits:
  assumes "getRuntimePtr rm bld = Inr (rp, b1)"
  shows "filter is_call (body_of b1 (insert_fn bld)) = filter is_call (body_of bld (insert_fn bld))"
proof -
  have v: "insert_fn bld < length (mod_functions bld)"
    by (rule getRuntimePtr_Inr(2) [OF assms])
  from assms have "b1 = bld \<or> b1 = snd (emit (Load (m_dataPtr rm) ''rt'') bld)"
    by (auto simp: getRuntimePtr_def CreateLoad_def split: sum.splits option.splits if_splits)
  then show ?thesis by (auto simp: emit_body [OF v])
qed

lemma struct_access:
  fixes i :: nat and nameA nameB :: string
  assumes "getRuntimePtr rm bld = Inr (rp, b1)"
  defines "k \<equiv> insert_fn bld"
  defines "n \<equiv> length (body_of b1 k)"
  defines "r \<equiv> CreateLoad (InstResult k n) nameB (snd (CreateStructGEP rp i nameA b1))"
  shows "(let (p, b2) = CreateStructGEP rp i nameA b1 in Inr (CreateLoad p nameB b2)) =
           (Inr r :: error + Value \<times> Builder)"
    and "fst r = InstResult k (Suc n)"
    and "body_of (snd r) k = body_of b1 k @ [StructGEP rp i nameA, Load (InstResult k n) nameB]"
    and "insert_fn (snd r) = k" and "insert_fn (snd r) < length (mod_functions (snd r))"
    and "j \<noteq> k \<Longrightarrow> nth_opt (mod_functions (snd r)) j = nth_opt (mod_functions b1) j"
proof -
  note g = getRuntimePtr_Inr [OF assms(1)]
  have v1: "insert_fn b1 < length (mod_functions b1)" using g by simp
  define b2 where "b2 = snd (emit (StructGEP rp i nameA) b1)"
  have v2: "insert_fn b2 < length (mod_functions b2)"
    using v1 by (simp add: b2_def emit_insert_fn emit_length)
  have body2: "body_of b2 k = body_of b1 k @ [StructGEP rp i nameA]"
    by (simp add: b2_def emit_body [OF v1] g(1) k_def)
  have i2: "insert_fn b2 = k" by (simp add: b2_def emit_insert_fn g(1) k_def)
  have r: "r = emit (Load (InstResult k n) nameB) b2"
    by (simp add: r_def CreateLoad_def CreateStructGEP_def b2_def)
  show "(let (p, b2) = CreateStructGEP rp i nameA b1 in Inr (CreateLoad p nameB b2)) =
           (Inr r :: error + Value \<times> Builder)"
    by (simp add: r_def CreateStructGEP_def split_beta emit_fst g(1) k_def n_def)
  show "fst r = InstResult k (Suc n)"
    by (simp add: r emit_fst i2 body2 n_def)
  show "body_of (snd r) k = body_of b1 k @ [StructGEP rp i nameA, Load (InstResult k n) nameB]"
    by (simp add: r emit_body [OF v2] i2 body2)
  show "insert_fn (snd r) = k" by (simp add: r emit_insert_fn i2)
  show "insert_fn (snd r) < length (mod_functions (snd r))"
    using v2 by (simp add: r emit_insert_fn emit_length)
  show "nth_opt (mod_functions (snd r)) j = nth_opt (mod_functions b1) j" if "j \<noteq> k"
    using that by (simp add: r emit_other_fn i2) (simp add: b2_def emit_other_fn g(1) k_def)
qed






text \<open>
  C5.  The layout type is one array of \<open>Index_size\<close> words followed by exactly three
  byte pointers, and it is the same type on every call.  The byte offsets of the
  three pointer members are the size of the whole word array plus 0, 1 and 2 pointer
  sizes; they depend on the type alone, and a write to a word field on the host side
  leaves the three pointers as they were.  \<open>getCallData\<close>, \<open>getCode\<close> and
  \<open>getJmpBuf\<close> address the struct members 1, 2 and 3, in that order, and load from
  them.
\<close>

theorem layout_pointer_slots:
  fixes rm :: RuntimeManager and bld b1 :: Builder and rp :: Value
    and wordsize P :: nat and idx :: Index and v :: u256 and r :: Runtime
  assumes rp: "getRuntimePtr rm bld = Inr (rp, b1)"
  defines "ty \<equiv> fst (RuntimeData_getType None)"
  defines "k \<equiv> insert_fn bld"
  defines "n \<equiv> length (body_of b1 k)"
  shows "struct_elems ty = [ArrayType Word Index_size, BytePtr, BytePtr, BytePtr]
       \<and> fst (RuntimeData_getType (snd (RuntimeData_getType None))) = ty
       \<and> elementOffset wordsize P ty 1 = Index_size * wordsize
       \<and> elementOffset wordsize P ty 2 = Index_size * wordsize + P
       \<and> elementOffset wordsize P ty 3 = Index_size * wordsize + 2 * P
       \<and> (\<exists>b2. getCallData rm bld = Inr (InstResult k (Suc n), b2)
             \<and> body_of b2 k = body_of b1 k @
                 [StructGEP rp 1 ''calldataPtr'', Load (InstResult k n) ''calldata''])
       \<and> (\<exists>b2. getCode rm bld = Inr (InstResult k (Suc n), b2)
             \<and> body_of b2 k = body_of b1 k @
                 [StructGEP rp 2 ''codePtr'', Load (InstResult k n) ''code''])
       \<and> (\<exists>b2. getJmpBuf rm bld = Inr (InstResult k (Suc n), b2)
             \<and> body_of b2 k = body_of b1 k @
                 [StructGEP rp 3 ''jmpbufPtr'', Load (InstResult k n) ''jmpbuf''])
       \<and> callData (m_data (Runtime_set idx v r)) = callData (m_data r)
       \<and> code (m_data (Runtime_set idx v r)) = code (m_data r)
       \<and> jmpBuf (m_data (Runtime_set idx v r)) = jmpBuf (m_data r)"
proof -
  have ty: "struct_elems ty = [ArrayType Word Index_size, BytePtr, BytePtr, BytePtr]"
    by (simp add: ty_def RuntimeData_getType_def Let_def)
  have again: "fst (RuntimeData_getType (snd (RuntimeData_getType None))) = ty"
    by (simp add: ty_def RuntimeData_getType_def Let_def)
  have o1: "elementOffset wordsize P ty 1 = Index_size * wordsize"
    by (simp add: elementOffset_def ty)
  have o2: "elementOffset wordsize P ty 2 = Index_size * wordsize + P"
    by (simp add: elementOffset_def ty numeral_2_eq_2)
  have o3: "elementOffset wordsize P ty 3 = Index_size * wordsize + 2 * P"
    by (simp add: elementOffset_def ty numeral_3_eq_3)
  have acc: "\<exists>b2. (let (p, b2) = CreateStructGEP rp i name1 b1 in Inr (CreateLoad p name2 b2))
                 = (Inr (InstResult k (Suc n), b2) :: error + Value \<times> Builder)
             \<and> body_of b2 k = body_of b1 k @ [StructGEP rp i name1, Load (InstResult k n) name2]"
    for i name1 name2
  proof -
    define r where "r = CreateLoad (InstResult k n) name2 (snd (CreateStructGEP rp i name1 b1))"
    note sa = struct_access(1,2,3) [OF rp, where i = i and nameA = name1 and nameB = name2]
    have "(let (p, b2) = CreateStructGEP rp i name1 b1 in Inr (CreateLoad p name2 b2))
                 = (Inr (InstResult k (Suc n), snd r) :: error + Value \<times> Builder)
             \<and> body_of (snd r) k = body_of b1 k @ [StructGEP rp i name1, Load (InstResult k n) name2]"
      using sa unfolding r_def k_def n_def by (simp add: prod_eq_iff)
    then show ?thesis by (rule exI)
  qed
  have cd: "\<exists>b2. getCallData rm bld = Inr (InstResult k (Suc n), b2)
             \<and> body_of b2 k = body_of b1 k @
                 [StructGEP rp 1 ''calldataPtr'', Load (InstResult k n) ''calldata'']"
    using acc [of 1 "''calldataPtr''" "''calldata''"] by (simp add: getCallData_def rp)
  have co: "\<exists>b2. getCode rm bld = Inr (InstResult k (Suc n), b2)
             \<and> body_of b2 k = body_of b1 k @
                 [StructGEP rp 2 ''codePtr'', Load (InstResult k n) ''code'']"
    using acc [of 2 "''codePtr''" "''code''"] by (simp add: getCode_def rp)
  have jb: "\<exists>b2. getJmpBuf rm bld = Inr (InstResult k (Suc n), b2)
             \<and> body_of b2 k = body_of b1 k @
                 [StructGEP rp 3 ''jmpbufPtr'', Load (InstResult k n) ''jmpbuf'']"
    using acc [of 3 "''jmpbufPtr''" "''jmpbuf''"] by (simp add: getJmpBuf_def rp)
  have host: "callData (m_data (Runtime_set idx v r)) = callData (m_data r)"
    "code (m_data (Runtime_set idx v r)) = code (m_data r)"
    "jmpBuf (m_data (Runtime_set idx v r)) = jmpBuf (m_data r)"
    by (simp_all add: Runtime_set_def)
  from ty again o1 o2 o3 cd co jb host show ?thesis
    by - (intro conjI; assumption)
qed

theorem layout_pointer_slots_witness:
  "getRuntimePtr example_rm example_built = Inr (Argument 0 1, example_built)
   \<and> elementOffset 32 8 (fst (RuntimeData_getType None)) 1 = 512
   \<and> elementOffset 32 8 (fst (RuntimeData_getType None)) 2 = 520
   \<and> elementOffset 32 8 (fst (RuntimeData_getType None)) 3 = 528
   \<and> (\<exists>b2. getCallData example_rm example_built = Inr (InstResult 0 2, b2)
         \<and> body_of b2 0 = [Store (Argument 0 1) (GlobalRef 0),
                            StructGEP (Argument 0 1) 1 ''calldataPtr'',
                            Load (InstResult 0 1) ''calldata''])
   \<and> (\<exists>b2. getCode example_rm example_built = Inr (InstResult 0 2, b2)
         \<and> body_of b2 0 = [Store (Argument 0 1) (GlobalRef 0),
                            StructGEP (Argument 0 1) 2 ''codePtr'',
                            Load (InstResult 0 1) ''code''])
   \<and> (\<exists>b2. getJmpBuf example_rm example_built = Inr (InstResult 0 2, b2)
         \<and> body_of b2 0 = [Store (Argument 0 1) (GlobalRef 0),
                            StructGEP (Argument 0 1) 3 ''jmpbufPtr'',
                            Load (InstResult 0 1) ''jmpbuf''])"
proof -
  have h: "getRuntimePtr example_rm example_built = Inr (Argument 0 1, example_built)"
    by (rule example_getRuntimePtr_main)
  from layout_pointer_slots [OF h, of 32 8] h show ?thesis
    by (simp add: example_built_simps Index_size_def numeral_2_eq_2)
qed

text \<open>
  C9.  Let the module being emitted into hold, at the place where the constructor
  put it, the declaration \<open>longjmp\<close>, and let the function being emitted into be
  another one.  Then for every status code \<open>raiseException\<close> emits, after obtaining
  the layout pointer, a computation of the address of struct member 3 (the third of
  the three trailing pointers of the layout type), a load of the checkpoint handle
  from it, and one call whose callee is that declaration and whose two arguments are
  the loaded handle and the constant of the status code; the body gains exactly one
  call.  The callee is declared and not defined: it has external linkage and no
  body, after the constructor and after the emission.  The call does not return:
  whatever instructions follow it, running the emitted instructions ends at the
  call, with its two arguments, and nothing behind it runs.
\<close>

theorem raiseException_emits_call:
  fixes rm :: RuntimeManager and bld0 bld1 bld b1 :: Builder and rp :: Value
    and returnCode :: ReturnCode and rest :: "Inst list" and s :: store
  assumes ctor: "RuntimeManager_ctor bld0 = Inr (rm, bld1)"
    and decl: "nth_opt (mod_functions bld) (length (mod_functions bld0)) =
                 Some longjmp_declaration"
    and elsewhere: "insert_fn bld \<noteq> length (mod_functions bld0)"
    and rp: "getRuntimePtr rm bld = Inr (rp, b1)"
  defines "k \<equiv> insert_fn bld"
  defines "n \<equiv> length (body_of b1 k)"
  shows "(\<exists>b2. raiseException rm returnCode bld = Inr b2
            \<and> body_of b2 k = body_of b1 k @
                [StructGEP rp 3 ''jmpbufPtr'', Load (InstResult k n) ''jmpbuf'',
                 Call2 (m_longjmp rm) (InstResult k (Suc n)) (ConstReturnCode returnCode)]
            \<and> length (filter is_call (body_of b2 k)) =
                Suc (length (filter is_call (body_of bld k)))
            \<and> nth_opt (mod_functions b2) (length (mod_functions bld0)) =
                Some longjmp_declaration
            \<and> run b2 ([StructGEP rp 3 ''jmpbufPtr'', Load (InstResult k n) ''jmpbuf'',
                       Call2 (m_longjmp rm) (InstResult k (Suc n))
                         (ConstReturnCode returnCode)] @ rest) s =
                Aborted (InstResult k (Suc n)) (ConstReturnCode returnCode))
       \<and> drop 1 (struct_elems (fst (RuntimeData_getType None))) = [BytePtr, BytePtr, BytePtr]
       \<and> m_longjmp rm = FunctionRef (length (mod_functions bld0))
       \<and> nth_opt (mod_functions bld1) (length (mod_functions bld0)) = Some longjmp_declaration
       \<and> fn_body longjmp_declaration = None
       \<and> fn_linkage longjmp_declaration = ExternalLinkage"
proof -
  define j where "j = length (mod_functions bld0)"
  define r where "r = CreateLoad (InstResult k n) ''jmpbuf'' (snd (CreateStructGEP rp 3 ''jmpbufPtr'' b1))"
  have jk: "j \<noteq> k" using elsewhere by (simp add: j_def k_def)
  have sa: "(let (p, b2) = CreateStructGEP rp 3 ''jmpbufPtr'' b1 in Inr (CreateLoad p ''jmpbuf'' b2)) =
           (Inr r :: error + Value \<times> Builder)"
    "fst r = InstResult k (Suc n)"
    "body_of (snd r) k = body_of b1 k @ [StructGEP rp 3 ''jmpbufPtr'', Load (InstResult k n) ''jmpbuf'']"
    "insert_fn (snd r) = k" "insert_fn (snd r) < length (mod_functions (snd r))"
    using struct_access(1-5) [OF rp, where i = 3 and nameA = "''jmpbufPtr''" and nameB = "''jmpbuf''"]
    unfolding r_def k_def n_def by simp_all
  have sa6: "nth_opt (mod_functions (snd r)) j = nth_opt (mod_functions b1) j"
    using struct_access(6) [OF rp, where i = 3 and nameA = "''jmpbufPtr''"
        and nameB = "''jmpbuf''" and j = j] jk
    unfolding r_def k_def n_def by simp
  define cl where "cl = Call2 (m_longjmp rm) (InstResult k (Suc n)) (ConstReturnCode returnCode)"
  define b2 where "b2 = snd (emit cl (snd r))"
  have jb: "getJmpBuf rm bld = Inr (fst r, snd r)"
    using sa(1) by (simp add: getJmpBuf_def rp)
  have re: "raiseException rm returnCode bld = Inr b2"
    by (simp add: raiseException_def jb CreateCall2_def sa(2) b2_def cl_def)
  have body: "body_of b2 k = body_of b1 k @
                [StructGEP rp 3 ''jmpbufPtr'', Load (InstResult k n) ''jmpbuf'', cl]"
    by (simp add: b2_def emit_body [OF sa(5)] sa(4) sa(3))
  have cnt: "length (filter is_call (body_of b2 k)) = Suc (length (filter is_call (body_of bld k)))"
    using getRuntimePtr_emits [OF rp] body unfolding cl_def k_def by simp
  have lj: "m_longjmp rm = FunctionRef j"
    using ctor_result(2) [OF ctor] by (simp add: j_def)
  have "nth_opt (mod_functions b2) j = nth_opt (mod_functions (snd r)) j"
    using jk by (simp add: b2_def emit_other_fn sa(4))
  also have "\<dots> = nth_opt (mod_functions bld) j"
    using getRuntimePtr_other_fn [OF rp, of j] jk by (simp add: sa6 k_def)
  finally have decl2: "nth_opt (mod_functions b2) j = Some longjmp_declaration"
    using decl by (simp add: j_def)
  have ab: "is_abort_primitive b2 (m_longjmp rm)"
    by (simp add: is_abort_primitive_def lj decl2) (simp add: longjmp_declaration_def)
  have rn: "run b2 ([StructGEP rp 3 ''jmpbufPtr'', Load (InstResult k n) ''jmpbuf'', cl] @ rest) s =
                Aborted (InstResult k (Suc n)) (ConstReturnCode returnCode)"
    using ab by (simp add: cl_def)
  have ex: "\<exists>b2. raiseException rm returnCode bld = Inr b2
            \<and> body_of b2 k = body_of b1 k @
                [StructGEP rp 3 ''jmpbufPtr'', Load (InstResult k n) ''jmpbuf'',
                 Call2 (m_longjmp rm) (InstResult k (Suc n)) (ConstReturnCode returnCode)]
            \<and> length (filter is_call (body_of b2 k)) =
                Suc (length (filter is_call (body_of bld k)))
            \<and> nth_opt (mod_functions b2) (length (mod_functions bld0)) =
                Some longjmp_declaration
            \<and> run b2 ([StructGEP rp 3 ''jmpbufPtr'', Load (InstResult k n) ''jmpbuf'',
                       Call2 (m_longjmp rm) (InstResult k (Suc n))
                         (ConstReturnCode returnCode)] @ rest) s =
                Aborted (InstResult k (Suc n)) (ConstReturnCode returnCode)"
    using re body cnt decl2 rn unfolding cl_def j_def
    by - (intro exI [of _ b2] conjI; assumption)
  have d1: "fn_body longjmp_declaration = None"
    and d2: "fn_linkage longjmp_declaration = ExternalLinkage"
    by (simp_all add: longjmp_declaration_def)
  have slots: "drop 1 (struct_elems (fst (RuntimeData_getType None))) = [BytePtr, BytePtr, BytePtr]"
    by (simp add: RuntimeData_getType_def Let_def)
  from ex slots ctor_result(2) [OF ctor] ctor_facts(9) [OF ctor] d1 d2 show ?thesis
    by - (intro conjI; assumption)
qed

theorem raiseException_emits_call_witness:
  "RuntimeManager_ctor example_builder = Inr (example_rm, example_built)
   \<and> nth_opt (mod_functions (SetInsertPoint 1 example_built)) 2 = Some longjmp_declaration
   \<and> getRuntimePtr example_rm (SetInsertPoint 1 example_built) =
       Inr (InstResult 1 0, example_in_helper)
   \<and> (\<exists>b2. raiseException example_rm 102 (SetInsertPoint 1 example_built) = Inr b2
         \<and> body_of b2 1 = [Load (GlobalRef 0) ''rt'',
                            StructGEP (InstResult 1 0) 3 ''jmpbufPtr'',
                            Load (InstResult 1 1) ''jmpbuf'',
                            Call2 (FunctionRef 2) (InstResult 1 2) (ConstReturnCode 102)]
         \<and> length (filter is_call (body_of b2 1)) = 1
         \<and> nth_opt (mod_functions b2) 2 = Some longjmp_declaration
         \<and> run b2 [StructGEP (InstResult 1 0) 3 ''jmpbufPtr'',
                    Load (InstResult 1 1) ''jmpbuf'',
                    Call2 (FunctionRef 2) (InstResult 1 2) (ConstReturnCode 102),
                    Store (ConstInt32 0) (GlobalRef 0)] empty_store =
             Aborted (InstResult 1 2) (ConstReturnCode 102))"
proof -
  have h1: "RuntimeManager_ctor example_builder = Inr (example_rm, example_built)"
    by (rule example_ctor)
  have len: "length (mod_functions example_builder) = 2"
    by (simp add: example_builder_def)
  have h2: "nth_opt (mod_functions (SetInsertPoint 1 example_built))
              (length (mod_functions example_builder)) = Some longjmp_declaration"
    by (simp add: nth_opt_def SetInsertPoint_def example_built_def example_builder_def)
  have h3: "insert_fn (SetInsertPoint 1 example_built) \<noteq> length (mod_functions example_builder)"
    by (simp add: SetInsertPoint_def example_builder_def)
  have h4: "getRuntimePtr example_rm (SetInsertPoint 1 example_built) =
       Inr (InstResult 1 0, example_in_helper)"
    by (rule example_getRuntimePtr_helper)
  have body: "body_of example_in_helper (Suc 0) = [Load (GlobalRef 0) ''rt'']"
    "body_of example_built (Suc 0) = []"
    by (simp_all add: body_of_def nth_opt_def example_in_helper_def example_built_def
          example_helper_def)
  have i0: "m_longjmp example_rm = FunctionRef (Suc (Suc 0))"
    "length (mod_functions example_builder) = Suc (Suc 0)"
    by (simp_all add: example_rm_def example_builder_def)
  from raiseException_emits_call [OF h1 h2 h3 h4, of 102 "[Store (ConstInt32 0) (GlobalRef 0)]"
         empty_store] h1 h2 h4
  show ?thesis
    by (simp add: SetInsertPoint_simps i0 body numeral_2_eq_2)
qed

text \<open>
  C8.  The claim: the global slot and the declaration of the abort primitive are
  created lazily, once per compilation unit, and reused by every later construction
  of a runtime manager in that unit.  The code: two constructions on one module
  leave two global variables \<open>rt\<close> and two declarations \<open>longjmp\<close> in it, and the
  second manager refers to the second of each.
\<close>

theorem ctor_twice_counterexample:
  "construct_twice example_builder = Inr (example_rm, example_rm2, example_built_twice)
   \<and> mod_globals example_built_twice = [rt_global, rt_global]
   \<and> map fn_name (mod_functions example_built_twice) =
       [''main'', ''helper'', ''longjmp'', ''longjmp'']
   \<and> m_dataPtr example_rm = GlobalRef 0 \<and> m_dataPtr example_rm2 = GlobalRef 1
   \<and> m_longjmp example_rm = FunctionRef 2 \<and> m_longjmp example_rm2 = FunctionRef 3"
proof -
  have "RuntimeManager_ctor example_built = Inr (example_rm2, example_built_twice)"
    by (simp add: RuntimeManager_ctor_def new_GlobalVariable_def Function_Create_def
          getMainFunction_def arg_count_def nth_opt_def CreateStore_def emit_def body_of_def
          Let_def example_built_def example_rm2_def example_built_twice_def example_main_def
          rt_global_def longjmp_declaration_def)
  then have "construct_twice example_builder =
      Inr (example_rm, example_rm2, example_built_twice)"
    by (simp add: construct_twice_def example_ctor)
  then show ?thesis
    by (simp add: example_built_twice_def example_rm_def example_rm2_def example_main_def
          example_helper_def longjmp_declaration_def)
qed

text \<open>
  C8, as the code has it.  Every construction of a runtime manager that succeeds adds
  exactly one global variable \<open>rt\<close> and exactly one declaration \<open>longjmp\<close> to the
  module, whatever the module already holds, and the manager refers to these two new
  objects.  A module therefore has one slot and one declaration when one runtime
  manager has been constructed on it.
\<close>

theorem ctor_creates_slot_and_declaration:
  fixes bld b1 :: Builder and rm :: RuntimeManager
  assumes "RuntimeManager_ctor bld = Inr (rm, b1)"
  shows "mod_globals b1 = mod_globals bld @ [rt_global]
       \<and> m_dataPtr rm = GlobalRef (length (mod_globals bld))
       \<and> length (mod_functions b1) = Suc (length (mod_functions bld))
       \<and> nth_opt (mod_functions b1) (length (mod_functions bld)) = Some longjmp_declaration
       \<and> m_longjmp rm = FunctionRef (length (mod_functions bld))"
  using ctor_facts(7,8,9) [OF assms] ctor_result(1,2) [OF assms] by simp

theorem ctor_creates_slot_and_declaration_witness:
  "RuntimeManager_ctor example_builder = Inr (example_rm, example_built)
   \<and> mod_globals example_built = [rt_global]
   \<and> m_dataPtr example_rm = GlobalRef 0
   \<and> length (mod_functions example_built) = 3
   \<and> nth_opt (mod_functions example_built) 2 = Some longjmp_declaration
   \<and> m_longjmp example_rm = FunctionRef 2"
proof -
  have h: "RuntimeManager_ctor example_builder = Inr (example_rm, example_built)"
    by (rule example_ctor)
  from ctor_creates_slot_and_declaration [OF h] h show ?thesis
    by (simp add: example_builder_def numeral_2_eq_2 numeral_3_eq_3)
qed

end
